theory Spec2Isabelle
  imports Complex_Main
begin

section \<open>The dashboard's MCP client (simple-frontend/src/App.jsx)\<close>

subsection \<open>JavaScript values\<close>

text \<open>
  A number that \<^verbatim>\<open>JSON.parse\<close> can produce is an IEEE double other than NaN: a finite
  double is a rational, and a literal too large for a double parses to an infinity.
\<close>

datatype number = Finite rat | PosInfinity | NegInfinity

text \<open>
  A parsed JSON value. \<open>JObject\<close> lists the own properties of the object; JavaScript's
  \<^verbatim>\<open>undefined\<close>, which no JSON text denotes but which a read of a missing property
  yields, is \<open>None\<close> of \<open>json option\<close>.
\<close>

datatype json =
    JNull
  | JBool bool
  | JNumber number
  | JString string
  | JArray "json list"
  | JObject "(string \<times> json) list"

text \<open>
  The exceptions \<^verbatim>\<open>sendRequest\<close> can end with. \<open>HttpError s\<close> is
  \<^verbatim>\<open>new Error(`HTTP error! status: ${response.status}`)\<close>; \<open>McpError v\<close> is
  \<^verbatim>\<open>new Error(v)\<close> of line 87, carrying the value handed to the constructor;
  \<open>TypeError\<close> is the read of a property of \<^verbatim>\<open>null\<close>; \<open>SyntaxError\<close> is
  \<^verbatim>\<open>response.json()\<close> rejecting a body that is not JSON; \<open>FetchFailed\<close> is
  \<^verbatim>\<open>fetch\<close> rejecting (no HTTP response at all).
\<close>

datatype exn = HttpError nat | McpError json | TypeError | SyntaxError | FetchFailed

text \<open>
  JavaScript's ToBoolean, as \<^verbatim>\<open>if (result.error)\<close> and \<^verbatim>\<open>||\<close> apply it:
  \<^verbatim>\<open>undefined\<close>, \<^verbatim>\<open>null\<close>, \<^verbatim>\<open>false\<close>, zero and the empty string are
  falsy, every other value (every array and object too) is truthy.
\<close>

fun truthy :: "json option \<Rightarrow> bool" where
  "truthy None = False"
| "truthy (Some JNull) = False"
| "truthy (Some (JBool b)) = b"
| "truthy (Some (JNumber n)) = (n \<noteq> Finite 0)"
| "truthy (Some (JString s)) = (s \<noteq> [])"
| "truthy (Some (JArray xs)) = True"
| "truthy (Some (JObject kvs)) = True"

text \<open>
  The property reads of \<^verbatim>\<open>sendRequest\<close>: \<^verbatim>\<open>v.error\<close>, \<^verbatim>\<open>v.result\<close> and
  \<^verbatim>\<open>v.message\<close>. Reading a property of \<^verbatim>\<open>null\<close> throws a TypeError; an object
  yields its own property or \<^verbatim>\<open>undefined\<close>; a boolean, a number, a string and an
  array have no property of these three names, so the read yields \<^verbatim>\<open>undefined\<close>.
\<close>

fun get_member :: "json \<Rightarrow> string \<Rightarrow> exn + json option" where
  "get_member JNull k = Inl TypeError"
| "get_member (JObject kvs) k = Inr (map_of kvs k)"
| "get_member v k = Inr None"

subsection \<open>Request ids\<close>

text \<open>
  \<^verbatim>\<open>this.requestId\<close> is a JavaScript Number, a double, that starts at 0 and changes
  only by \<^verbatim>\<open>++\<close>. Every integer from 0 to \<open>2 ^ 53\<close> is a double and the sum is exact
  below \<open>2 ^ 53\<close>; at \<open>2 ^ 53\<close> the sum \<open>2 ^ 53 + 1\<close> is no double and rounds (ties to
  even) back to \<open>2 ^ 53\<close>. So the counter is a natural number that stops at \<open>2 ^ 53\<close>.
\<close>

definition js_increment :: "nat \<Rightarrow> nat" where
  "js_increment n = (if n < 2 ^ 53 then n + 1 else n)"

definition digit_char :: "nat \<Rightarrow> char" where
  "digit_char d = ''0123456789'' ! d"

text \<open>
  \<^verbatim>\<open>Number.prototype.toString\<close> on a non-negative integer below \<open>10 ^ 21\<close>: its decimal
  digits, most significant first, no leading zero.
\<close>

fun Number_toString :: "nat \<Rightarrow> string" where
  "Number_toString n =
     (if n < 10 then [digit_char n]
      else Number_toString (n div 10) @ [digit_char (n mod 10)])"

declare Number_toString.simps [simp del]

subsection \<open>MCPClient\<close>

record MCPClient =
  baseUrl :: string
  requestId :: nat

record request =
  jsonrpc :: string
  req_id :: string
  req_method :: string
  req_params :: json

record response =
  ok :: bool
  status :: nat
  json_body :: "json option"

datatype fetch_outcome = Rejected | Resolved response

definition new_MCPClient :: "string \<Rightarrow> MCPClient" where
  "new_MCPClient url = \<lparr>baseUrl = url, requestId = 0\<rparr>"

text \<open>
  Lines 62-67: the counter is incremented first, and the request carries the new value
  as a string. The client is returned with its counter updated.
\<close>

definition next_request :: "MCPClient \<Rightarrow> string \<Rightarrow> json \<Rightarrow> request \<times> MCPClient" where
  "next_request c method params =
     (let c' = c\<lparr>requestId := js_increment (requestId c)\<rparr>
      in (\<lparr>jsonrpc = ''2.0'', req_id = Number_toString (requestId c'),
           req_method = method, req_params = params\<rparr>, c'))"

text \<open>
  \<^verbatim>\<open>v || 'text'\<close>: the left operand when it is truthy, the string otherwise.
\<close>

definition or_else :: "json option \<Rightarrow> string \<Rightarrow> json" where
  "or_else v d = (case v of None \<Rightarrow> JString d | Some x \<Rightarrow> if truthy v then x else JString d)"

text \<open>
  Lines 79-90, on what \<^verbatim>\<open>fetch\<close> came back with. \<open>json_body\<close> is what
  \<^verbatim>\<open>await response.json()\<close> yields, \<open>None\<close> when it rejects; it is read only when
  the status is ok.
\<close>

definition handle_outcome :: "fetch_outcome \<Rightarrow> exn + json option" where
  "handle_outcome out =
     (case out of
        Rejected \<Rightarrow> Inl FetchFailed
      | Resolved response \<Rightarrow>
          if \<not> ok response then Inl (HttpError (status response))
          else (case json_body response of
                  None \<Rightarrow> Inl SyntaxError
                | Some result \<Rightarrow>
                    (case get_member result ''error'' of
                       Inl e \<Rightarrow> Inl e
                     | Inr None \<Rightarrow> get_member result ''result''
                     | Inr (Some err) \<Rightarrow>
                         if truthy (Some err) then
                           (case get_member err ''message'' of
                              Inl e \<Rightarrow> Inl e
                            | Inr msg \<Rightarrow> Inl (McpError (or_else msg ''MCP request failed'')))
                         else get_member result ''result'')))"

text \<open>
  \<^verbatim>\<open>sendRequest(method, params)\<close>. The network is the parameter \<open>fetch\<close>: what the POST
  of a request to a URL comes back with. The result is the value returned (\<open>Inr\<close>) or the
  exception thrown (\<open>Inl\<close>), with the client as the call leaves it: a call that throws
  keeps the counter it incremented. \<open>params\<close> is a JSON value (\<^verbatim>\<open>null\<close> by default),
  which \<^verbatim>\<open>JSON.stringify\<close> always serialises.
\<close>

definition sendRequest ::
  "(string \<Rightarrow> request \<Rightarrow> fetch_outcome) \<Rightarrow> MCPClient \<Rightarrow> string \<Rightarrow> json
    \<Rightarrow> (exn + json option) \<times> MCPClient" where
  "sendRequest fetch c method params =
     (let (request, c') = next_request c method params
      in (handle_outcome (fetch (baseUrl c @ ''/mcp'') request), c'))"

text \<open>
  The requests POSTed by a sequence of calls on one client, in call order. A call takes its
  id before its first \<^verbatim>\<open>await\<close>, so calls that are in flight together still take
  their ids in the order they were made.
\<close>

fun requests_sent ::
  "(string \<Rightarrow> request \<Rightarrow> fetch_outcome) \<Rightarrow> MCPClient \<Rightarrow> (string \<times> json) list
    \<Rightarrow> request list" where
  "requests_sent fetch c [] = []"
| "requests_sent fetch c ((method, params) # calls) =
     fst (next_request c method params)
       # requests_sent fetch (snd (sendRequest fetch c method params)) calls"

subsection \<open>Reading an id back\<close>

text \<open>
  The number a string of decimal digits denotes. The client never reads an id back; the
  function serves to state that the ids of one client increase.
\<close>

definition decimal_value :: "string \<Rightarrow> nat" where
  "decimal_value s = foldl (\<lambda>acc ch. 10 * acc + (of_char ch - 48)) 0 s"

section \<open>The bridge dispatcher\<close>

text \<open>
  Modelled from the spec: the bridge server (mcp-server/main.py) is not among the source
  files. The tool table of section 4.1 of the specification: six names, fixed.
\<close>

datatype tool =
  Create_item | List_items | Get_item | Delete_item | Bedrock_chat | Bedrock_analyze_items

text \<open>
  Modelled from the spec: the names of the six tools of the bridge's tool table (section
  4.1), whose code is missing.
\<close>

definition tool_table :: "(string \<times> tool) list" where
  "tool_table =
     [(''create_item'', Create_item), (''list_items'', List_items),
      (''get_item'', Get_item), (''delete_item'', Delete_item),
      (''bedrock_chat'', Bedrock_chat), (''bedrock_analyze_items'', Bedrock_analyze_items)]"

text \<open>
  Modelled from the spec: the bridge's content block \<^verbatim>\<open>{type, text}\<close> (section 4.1).
\<close>

record content_block =
  block_type :: string
  block_text :: string

text \<open>
  Modelled from the spec: the four conditions of section 7 that become the
  \<^verbatim>\<open>error\<close> field of the bridge's response envelope, each with its message.
\<close>

datatype condition =
    Malformed_request string
  | Unknown_operation string
  | Bad_parameters string
  | Upstream_failure string

text \<open>
  Modelled from the spec: what the bridge's four methods return on success (section 4.1):
  the tool names, a list of content blocks, the resource URIs.
\<close>

datatype result =
    Tool_list "string list"
  | Content "content_block list"
  | Resource_list "string list"

text \<open>
  Modelled from the spec: the bridge's request envelope
  \<^verbatim>\<open>{protocol_version, id, method, params}\<close> of section 3.
\<close>

record request_envelope =
  protocol_version :: string
  envelope_id :: string
  envelope_method :: string
  envelope_params :: json

text \<open>
  Modelled from the spec: the bridge's response envelope
  \<^verbatim>\<open>{protocol_version, id, result | error}\<close> of section 3; \<open>Inl\<close> is the error field,
  \<open>Inr\<close> the result field.
\<close>

record response_envelope =
  reply_version :: string
  reply_id :: string
  reply_body :: "condition + result"

text \<open>
  Modelled from the spec: the bridge's \<^verbatim>\<open>tools/call(name, arguments)\<close> of section 4.1:
  "looks up name in the fixed tool table; if absent, fails with an unknown operation
  condition; if present, invokes the corresponding handler with arguments, returning its
  output wrapped as a list of content blocks". The handlers, whose bodies are missing, are
  the parameter \<open>handler\<close>: from the tool, the arguments and the store to a failure or
  the content blocks, and the store as the handler leaves it. A request without a name is
  malformed (section 7, category 1).
\<close>

definition tools_call ::
  "(tool \<Rightarrow> json option \<Rightarrow> 's \<Rightarrow> (condition + content_block list) \<times> 's)
    \<Rightarrow> json \<Rightarrow> 's \<Rightarrow> (condition + result) \<times> 's" where
  "tools_call handler params store =
     (case params of
        JObject members \<Rightarrow>
          (case map_of members ''name'' of
             Some (JString name) \<Rightarrow>
               (case map_of tool_table name of
                  None \<Rightarrow> (Inl (Unknown_operation name), store)
                | Some t \<Rightarrow>
                    (case handler t (map_of members ''arguments'') store of
                       (Inl failure, store') \<Rightarrow> (Inl failure, store')
                     | (Inr blocks, store') \<Rightarrow> (Inr (Content blocks), store')))
           | _ \<Rightarrow> (Inl (Malformed_request ''name''), store))
      | _ \<Rightarrow> (Inl (Malformed_request ''params''), store))"

text \<open>
  Modelled from the spec: the bridge's \<^verbatim>\<open>resources/read(uri)\<close> of section 4.1: "looks
  up uri; if absent, fails with unknown resource; otherwise returns the resource's current
  content serialized as a content block". The resources, which the specification does not
  list, are the parameter \<open>resources\<close>: each URI with the function that serialises the
  store's content.
\<close>

definition resources_read ::
  "(string \<times> ('s \<Rightarrow> string)) list \<Rightarrow> json \<Rightarrow> 's \<Rightarrow> condition + result" where
  "resources_read resources params store =
     (case params of
        JObject members \<Rightarrow>
          (case map_of members ''uri'' of
             Some (JString uri) \<Rightarrow>
               (case map_of resources uri of
                  None \<Rightarrow> Inl (Unknown_operation uri)
                | Some content \<Rightarrow>
                    Inr (Content [\<lparr>block_type = ''text'', block_text = content store\<rparr>]))
           | _ \<Rightarrow> Inl (Malformed_request ''uri''))
      | _ \<Rightarrow> Inl (Malformed_request ''params''))"

text \<open>
  Modelled from the spec: the bridge dispatcher of sections 4.1 and 6, whose code is
  missing: a direct dispatch on the method over the four supported values, any other
  method being an unknown operation; the response carries the request's protocol version
  and id.
\<close>

definition bridge ::
  "(tool \<Rightarrow> json option \<Rightarrow> 's \<Rightarrow> (condition + content_block list) \<times> 's)
    \<Rightarrow> (string \<times> ('s \<Rightarrow> string)) list \<Rightarrow> request_envelope \<Rightarrow> 's
    \<Rightarrow> response_envelope \<times> 's" where
  "bridge handler resources req store =
     (let (body, store') =
        (if envelope_method req = ''tools/list'' then
           (Inr (Tool_list (map fst tool_table)), store)
         else if envelope_method req = ''tools/call'' then
           tools_call handler (envelope_params req) store
         else if envelope_method req = ''resources/list'' then
           (Inr (Resource_list (map fst resources)), store)
         else if envelope_method req = ''resources/read'' then
           (resources_read resources (envelope_params req) store, store)
         else (Inl (Unknown_operation (envelope_method req)), store))
      in (\<lparr>reply_version = protocol_version req, reply_id = envelope_id req,
           reply_body = body\<rparr>, store'))"

section \<open>Request ids of one client\<close>

lemma digit_cases:
  "d < (10::nat) \<Longrightarrow>
     d = 0 \<or> d = 1 \<or> d = 2 \<or> d = 3 \<or> d = 4 \<or> d = 5 \<or> d = 6 \<or> d = 7 \<or> d = 8 \<or> d = 9"
  by arith

lemma digit_char_value: "d < 10 \<Longrightarrow> of_char (digit_char d) - 48 = d"
  using digit_cases [of d] by (auto simp: digit_char_def)

lemma decimal_value_snoc: "decimal_value (s @ [ch]) = 10 * decimal_value s + (of_char ch - 48)"
  by (simp add: decimal_value_def)

lemma decimal_value_toString: "decimal_value (Number_toString n) = n"
proof (induction n rule: Number_toString.induct)
  case (1 n)
  show ?case
  proof (cases "n < 10")
    case True
    then show ?thesis
      by (subst Number_toString.simps) (simp add: decimal_value_def digit_char_value)
  next
    case False
    with 1 have "decimal_value (Number_toString (n div 10)) = n div 10" by simp
    with False show ?thesis
      by (subst Number_toString.simps) (simp add: decimal_value_snoc digit_char_value)
  qed
qed

lemma snd_sendRequest: "snd (sendRequest fetch c m p) = c\<lparr>requestId := js_increment (requestId c)\<rparr>"
  by (simp add: sendRequest_def next_request_def Let_def)

lemma js_increment_le: "n \<le> 2 ^ 53 \<Longrightarrow> js_increment n \<le> 2 ^ 53"
  by (simp add: js_increment_def)

lemma js_increment_eq: "n \<le> 2 ^ 53 \<Longrightarrow> js_increment n = min (Suc n) (2 ^ 53)"
  unfolding js_increment_def min_def by arith

lemma js_increment_min: "n \<le> 2 ^ 53 \<Longrightarrow> min (js_increment n + k) (2 ^ 53) = min (n + Suc k) (2 ^ 53)"
  unfolding js_increment_def min_def by arith

lemma req_id_requests_sent:
  "requestId c \<le> 2 ^ 53 \<Longrightarrow> i < length calls \<Longrightarrow>
     req_id (requests_sent fetch c calls ! i) = Number_toString (min (requestId c + Suc i) (2 ^ 53))"
proof (induction calls arbitrary: c i)
  case Nil
  then show ?case by simp
next
  case (Cons call calls)
  obtain m p where call: "call = (m, p)" by (cases call)
  show ?case
  proof (cases i)
    case 0
    with Cons.prems show ?thesis
      by (simp add: call next_request_def Let_def js_increment_eq)
  next
    case (Suc j)
    let ?c' = "c\<lparr>requestId := js_increment (requestId c)\<rparr>"
    have le: "requestId ?c' \<le> 2 ^ 53" using js_increment_le [OF Cons.prems(1)] by simp
    have j: "j < length calls" using Cons.prems(2) Suc by simp
    have "req_id (requests_sent fetch ?c' calls ! j)
            = Number_toString (min (requestId ?c' + Suc j) (2 ^ 53))"
      by (rule Cons.IH [OF le j])
    also have "min (requestId ?c' + Suc j) (2 ^ 53) = min (requestId c + Suc (Suc j)) (2 ^ 53)"
      using js_increment_min [OF Cons.prems(1), of "Suc j"] by simp
    finally show ?thesis
      by (simp add: call Suc snd_sendRequest)
  qed
qed

lemma Number_toString_inj: "Number_toString m = Number_toString n \<Longrightarrow> m = n"
  by (metis decimal_value_toString)

lemma toString_3: "Number_toString (Suc 2) = ''3''"
  by (simp add: Number_toString.simps digit_char_def)

lemma toString_big: "Number_toString (2 ^ 53) = ''9007199254740992''"
  by (simp add: Number_toString.simps digit_char_def)

text \<open>
  Claim C9, as the code has it. The first \<open>2 ^ 53\<close> calls to \<^verbatim>\<open>sendRequest\<close> on a fresh
  \<open>MCPClient\<close> send ids that are the decimal strings of 1, 2, 3, ...: the call of index
  \<open>n\<close> (counting from 0) sends \<open>Number_toString (Suc n)\<close>, whatever the methods, the
  parameters and the network's answers were; that id differs from the id of every
  earlier call and denotes a larger number.
\<close>

theorem request_ids_sequential:
  assumes "n < length calls" and "n < 2 ^ 53"
  shows "req_id (requests_sent fetch (new_MCPClient url) calls ! n) = Number_toString (Suc n)
       \<and> decimal_value (req_id (requests_sent fetch (new_MCPClient url) calls ! n)) = Suc n
       \<and> (\<forall>i<n. req_id (requests_sent fetch (new_MCPClient url) calls ! i)
                    \<noteq> req_id (requests_sent fetch (new_MCPClient url) calls ! n)
                \<and> decimal_value (req_id (requests_sent fetch (new_MCPClient url) calls ! i))
                    < decimal_value (req_id (requests_sent fetch (new_MCPClient url) calls ! n)))"
proof -
  let ?c = "new_MCPClient url"
  have zero: "requestId ?c \<le> 2 ^ 53" by (simp add: new_MCPClient_def)
  have at: "req_id (requests_sent fetch ?c calls ! i) = Number_toString (Suc i)" if "i \<le> n" for i
  proof -
    from that assms have i: "i < length calls" and b: "Suc i \<le> 2 ^ 53" by simp_all
    have "req_id (requests_sent fetch ?c calls ! i)
            = Number_toString (min (requestId ?c + Suc i) (2 ^ 53))"
      by (rule req_id_requests_sent [OF zero i])
    also have "min (requestId ?c + Suc i) (2 ^ 53) = Suc i"
      using b by (simp add: new_MCPClient_def)
    finally show ?thesis .
  qed
  have val: "decimal_value (req_id (requests_sent fetch ?c calls ! i)) = Suc i" if "i \<le> n" for i
    using at [OF that] by (simp add: decimal_value_toString)
  have "req_id (requests_sent fetch ?c calls ! i) \<noteq> req_id (requests_sent fetch ?c calls ! n)
        \<and> decimal_value (req_id (requests_sent fetch ?c calls ! i))
            < decimal_value (req_id (requests_sent fetch ?c calls ! n))" if "i < n" for i
  proof -
    from that have "i \<le> n" by simp
    from val [OF this] val [of n] that show ?thesis by auto
  qed
  with at [of n] val [of n] show ?thesis by simp
qed

text \<open>Three calls on a fresh client: the third sends the id \<open>''3''\<close>.\<close>

theorem request_ids_sequential_witness:
  "(2::nat) < length [(''tools/list'', JNull), (''tools/call'', JNull), (''resources/list'', JNull)]
   \<and> (2::nat) < 2 ^ 53
   \<and> req_id (requests_sent (\<lambda>u r. Rejected) (new_MCPClient [])
         [(''tools/list'', JNull), (''tools/call'', JNull), (''resources/list'', JNull)] ! 2) = ''3''"
proof -
  have len: "(2::nat) < length [(''tools/list'', JNull), (''tools/call'', JNull), (''resources/list'', JNull)]"
    by simp
  have bound: "(2::nat) < 2 ^ 53" by simp
  from request_ids_sequential [OF len bound, of "\<lambda>u r. Rejected" "[]"] toString_3 len bound
  show ?thesis by simp
qed

text \<open>
  Past \<open>2 ^ 53\<close> calls the counter no longer moves: call number \<open>2 ^ 53 + 1\<close> does not
  send the decimal string of \<open>2 ^ 53 + 1\<close>, it sends the id of the call before it again.
\<close>

theorem request_id_repeats_counterexample:
  "req_id (requests_sent (\<lambda>u r. Rejected) (new_MCPClient [])
       (replicate (2 ^ 53 + 1) (''tools/list'', JNull)) ! (2 ^ 53)) \<noteq> Number_toString (2 ^ 53 + 1)
   \<and> req_id (requests_sent (\<lambda>u r. Rejected) (new_MCPClient [])
       (replicate (2 ^ 53 + 1) (''tools/list'', JNull)) ! (2 ^ 53)) = ''9007199254740992''
   \<and> req_id (requests_sent (\<lambda>u r. Rejected) (new_MCPClient [])
       (replicate (2 ^ 53 + 1) (''tools/list'', JNull)) ! (2 ^ 53))
     = req_id (requests_sent (\<lambda>u r. Rejected) (new_MCPClient [])
       (replicate (2 ^ 53 + 1) (''tools/list'', JNull)) ! (2 ^ 53 - 1))"
proof -
  define calls :: "(string \<times> json) list" where "calls = replicate (2 ^ 53 + 1) (''tools/list'', JNull)"
  let ?ids = "requests_sent (\<lambda>u r. Rejected) (new_MCPClient []) calls"
  have zero: "requestId (new_MCPClient []) \<le> 2 ^ 53" by (simp add: new_MCPClient_def)
  have len: "length calls = 2 ^ 53 + 1" by (simp add: calls_def)
  have i1: "(2::nat) ^ 53 < length calls" and i0: "(2::nat) ^ 53 - 1 < length calls"
    by (simp_all add: len)
  have last: "req_id (?ids ! (2 ^ 53)) = Number_toString (2 ^ 53)"
    using req_id_requests_sent [OF zero i1, of "\<lambda>u r. Rejected"]
    by (simp add: new_MCPClient_def)
  have prev: "req_id (?ids ! (2 ^ 53 - 1)) = Number_toString (2 ^ 53)"
    using req_id_requests_sent [OF zero i0, of "\<lambda>u r. Rejected"]
    by (simp add: new_MCPClient_def)
  have "Number_toString (2 ^ 53) \<noteq> Number_toString (2 ^ 53 + 1)"
    using Number_toString_inj [of "2 ^ 53" "2 ^ 53 + 1"] by auto
  with last prev toString_big show ?thesis unfolding calls_def by simp
qed

section \<open>When \<^verbatim>\<open>sendRequest\<close> throws\<close>

lemma get_member_not_null: "b \<noteq> JNull \<Longrightarrow> \<exists>v. get_member b k = Inr v"
  by (cases b) auto

lemma truthy_not_null: "truthy (Some v) \<Longrightarrow> v \<noteq> JNull"
  by (cases v) auto

lemma handle_outcome_throws:
  "isl (handle_outcome (Resolved r)) \<longleftrightarrow>
     \<not> ok r \<or> (case json_body r of
                  None \<Rightarrow> True
                | Some b \<Rightarrow> b = JNull \<or> (\<exists>e. get_member b ''error'' = Inr e \<and> truthy e))"
proof (cases "json_body r")
  case None
  then show ?thesis by (simp add: handle_outcome_def)
next
  case (Some b)
  show ?thesis
  proof (cases "b = JNull")
    case True
    with Some show ?thesis by (simp add: handle_outcome_def)
  next
    case False
    then obtain err where err: "get_member b ''error'' = Inr err"
      using get_member_not_null by blast
    from False obtain res where res: "get_member b ''result'' = Inr res"
      using get_member_not_null by blast
    show ?thesis
    proof (cases err)
      case None
      with Some False err res show ?thesis by (simp add: handle_outcome_def)
    next
      case (Some v)
      show ?thesis
      proof (cases "truthy (Some v)")
        case True
        then have "v \<noteq> JNull" by (rule truthy_not_null)
        then obtain msg where "get_member v ''message'' = Inr msg"
          using get_member_not_null by blast
        with \<open>json_body r = Some b\<close> False err Some True show ?thesis
          by (simp add: handle_outcome_def)
      next
        case F: False
        with \<open>json_body r = Some b\<close> False err res Some show ?thesis
          by (simp add: handle_outcome_def)
      qed
    qed
  qed
qed

lemma handle_outcome_returns:
  "\<not> isl (handle_outcome (Resolved r)) \<Longrightarrow>
     \<exists>b. json_body r = Some b \<and> handle_outcome (Resolved r) = get_member b ''result''"
  by (auto simp: handle_outcome_def split: if_splits option.splits sum.splits)

lemma fst_sendRequest:
  "fst (sendRequest fetch c method params)
     = handle_outcome (fetch (baseUrl c @ ''/mcp'') (fst (next_request c method params)))"
  by (simp add: sendRequest_def split_beta Let_def)

text \<open>
  Claim C10, as the code has it. When \<^verbatim>\<open>fetch\<close> resolves with a response \<open>r\<close>, the call
  throws exactly when the status is not ok, or the body is not JSON, or the parsed body is
  \<^verbatim>\<open>null\<close>, or the parsed body's \<^verbatim>\<open>error\<close> member is truthy; and a call that
  does not throw returns the parsed body's \<^verbatim>\<open>result\<close> member (\<^verbatim>\<open>undefined\<close> when
  there is none).
\<close>

theorem sendRequest_throws_iff:
  assumes "fetch (baseUrl c @ ''/mcp'') (fst (next_request c method params)) = Resolved r"
  shows "(isl (fst (sendRequest fetch c method params)) \<longleftrightarrow>
            \<not> ok r \<or> (case json_body r of
                         None \<Rightarrow> True
                       | Some b \<Rightarrow> b = JNull \<or> (\<exists>e. get_member b ''error'' = Inr e \<and> truthy e)))
       \<and> (isl (fst (sendRequest fetch c method params))
            \<or> (\<exists>b. json_body r = Some b
                  \<and> fst (sendRequest fetch c method params) = get_member b ''result''))"
  using assms handle_outcome_throws [of r] handle_outcome_returns [of r]
  by (auto simp: fst_sendRequest)

text \<open>An ok response whose body carries an error object with a message: the call throws it.\<close>

theorem sendRequest_throws_iff_witness:
  "(\<lambda>u q. Resolved \<lparr>ok = True, status = 200,
        json_body = Some (JObject [(''error'', JObject [(''message'', JString ''boom'')])])\<rparr>)
      (baseUrl (new_MCPClient []) @ ''/mcp'') (fst (next_request (new_MCPClient []) ''tools/call'' JNull))
     = Resolved \<lparr>ok = True, status = 200,
        json_body = Some (JObject [(''error'', JObject [(''message'', JString ''boom'')])])\<rparr>
   \<and> fst (sendRequest (\<lambda>u q. Resolved \<lparr>ok = True, status = 200,
        json_body = Some (JObject [(''error'', JObject [(''message'', JString ''boom'')])])\<rparr>)
        (new_MCPClient []) ''tools/call'' JNull) = Inl (McpError (JString ''boom''))"
proof -
  let ?r = "\<lparr>ok = True, status = 200,
        json_body = Some (JObject [(''error'', JObject [(''message'', JString ''boom'')])])\<rparr>"
  have h: "(\<lambda>u q. Resolved ?r) (baseUrl (new_MCPClient []) @ ''/mcp'')
             (fst (next_request (new_MCPClient []) ''tools/call'' JNull)) = Resolved ?r"
    by simp
  from sendRequest_throws_iff [of "\<lambda>u q. Resolved ?r" "new_MCPClient []" "''tools/call''" JNull ?r, OF h]
  have "isl (fst (sendRequest (\<lambda>u q. Resolved ?r) (new_MCPClient []) ''tools/call'' JNull))"
    by simp
  moreover have "fst (sendRequest (\<lambda>u q. Resolved ?r) (new_MCPClient []) ''tools/call'' JNull)
      = Inl (McpError (JString ''boom''))"
    by (simp add: fst_sendRequest handle_outcome_def or_else_def)
  ultimately show ?thesis by simp
qed

text \<open>
  An ok response whose body has an \<^verbatim>\<open>error\<close> member that is \<^verbatim>\<open>null\<close>: the member is
  there, and the call returns the result all the same.
\<close>

theorem null_error_field_counterexample:
  "''error'' \<in> fst ` set [(''result'', JString ''x''), (''error'', JNull)]
   \<and> ok \<lparr>ok = True, status = 200,
        json_body = Some (JObject [(''result'', JString ''x''), (''error'', JNull)])\<rparr>
   \<and> fst (sendRequest (\<lambda>u q. Resolved \<lparr>ok = True, status = 200,
        json_body = Some (JObject [(''result'', JString ''x''), (''error'', JNull)])\<rparr>)
        (new_MCPClient []) ''tools/list'' JNull) = Inr (Some (JString ''x''))"
  by (simp add: fst_sendRequest handle_outcome_def)

section \<open>A call of a tool that is not in the table\<close>

lemma tool_table_miss: "name \<notin> fst ` set tool_table \<Longrightarrow> map_of tool_table name = None"
  by (simp add: map_of_eq_None_iff)

lemma tools_call_unknown:
  assumes "map_of members ''name'' = Some (JString name)"
    and "name \<notin> fst ` set tool_table"
  shows "tools_call handler (JObject members) store = (Inl (Unknown_operation name), store)"
  using assms tool_table_miss [of name] by (simp add: tools_call_def)

text \<open>
  Claim C4, on the dispatcher modelled from the specification. A \<^verbatim>\<open>tools/call\<close>
  request whose name is none of the six of the tool table is answered with the error
  field set to the unknown-operation condition and no result, under the request's id; the
  store is the one the request found; and the answer is the same whatever the handlers
  are, so none of them ran.
\<close>

theorem unknown_tool_is_error:
  assumes "envelope_method req = ''tools/call''"
    and "envelope_params req = JObject members"
    and "map_of members ''name'' = Some (JString name)"
    and "name \<notin> fst ` set tool_table"
  shows "bridge handler resources req store =
           (\<lparr>reply_version = protocol_version req, reply_id = envelope_id req,
             reply_body = Inl (Unknown_operation name)\<rparr>, store)
       \<and> bridge handler resources req store = bridge handler' resources req store"
proof -
  have "bridge h resources req store =
           (\<lparr>reply_version = protocol_version req, reply_id = envelope_id req,
             reply_body = Inl (Unknown_operation name)\<rparr>, store)" for h
    using assms(1,2) tools_call_unknown [OF assms(3,4), of h store]
    by (simp add: bridge_def)
  then show ?thesis by simp
qed

text \<open>
  \<^verbatim>\<open>update_item\<close>, which section 3 of the specification mentions, is not one of the six:
  a call of it is an unknown operation, on a store (here a list of names) left as it was,
  with a handler that would have emptied it.
\<close>

theorem unknown_tool_is_error_witness:
  "envelope_method \<lparr>protocol_version = ''2.0'', envelope_id = ''7'',
       envelope_method = ''tools/call'',
       envelope_params = JObject [(''name'', JString ''update_item'')]\<rparr> = ''tools/call''
   \<and> map_of [(''name'', JString ''update_item'')] ''name'' = Some (JString ''update_item'')
   \<and> ''update_item'' \<notin> fst ` set tool_table
   \<and> bridge (\<lambda>t a s. (Inr [], [])) []
       \<lparr>protocol_version = ''2.0'', envelope_id = ''7'', envelope_method = ''tools/call'',
        envelope_params = JObject [(''name'', JString ''update_item'')]\<rparr> [''laptop'']
     = (\<lparr>reply_version = ''2.0'', reply_id = ''7'',
         reply_body = Inl (Unknown_operation ''update_item'')\<rparr>, [''laptop''])"
proof -
  let ?req = "\<lparr>protocol_version = ''2.0'', envelope_id = ''7'',
       envelope_method = ''tools/call'',
       envelope_params = JObject [(''name'', JString ''update_item'')]\<rparr>"
  have m: "envelope_method ?req = ''tools/call''" by simp
  have p: "envelope_params ?req = JObject [(''name'', JString ''update_item'')]" by simp
  have n: "map_of [(''name'', JString ''update_item'')] ''name'' = Some (JString ''update_item'')"
    by simp
  have t: "''update_item'' \<notin> fst ` set tool_table" by (simp add: tool_table_def)
  from unknown_tool_is_error [OF m p n t, of "\<lambda>t a s. (Inr [], [])" "[]" "[''laptop'']"] m n t
  show ?thesis by simp
qed

end
